theory Spec2Isabelle
  imports Main "HOL-Library.Word"
begin

unbundle bit_operations_syntax

section \<open>The Go values the package works on\<close>

text \<open>
  A Go call either returns or panics (a method call on a nil interface value is a run-time
  panic). Every function of the package that touches \<open>s.stat\<close> gets this result type.
\<close>

datatype 'a outcome = Returns 'a | Panics

text \<open>
  Errors of the standard library, as far as \<open>os.Stat\<close>, \<open>os.Getwd\<close> and
  \<open>errors.New\<close> build them: a bare \<open>syscall.Errno\<close>, the sentinel
  \<open>os.ErrNotExist\<close>, the string error of \<open>errors.New\<close>, and \<open>*os.PathError\<close>
  with its fields Op, Path and Err.
\<close>

datatype error = Errno nat | ErrNotExist | errorString string | PathError string string error

definition ENOENT :: nat where
  "ENOENT = 2"

definition EACCES :: nat where
  "EACCES = 13"

definition errors_New :: "string \<Rightarrow> error" where
  "errors_New text = errorString text"

text \<open>\<open>os.underlyingError\<close>: one level of unwrapping.\<close>

fun underlyingError :: "error \<Rightarrow> error" where
  "underlyingError (PathError oper path e) = e"
| "underlyingError e = e"

text \<open>
  \<open>os.IsNotExist\<close>: false on nil; otherwise the underlying error is the sentinel, or an
  \<open>Errno\<close> whose \<open>Is(ErrNotExist)\<close> holds, which on Unix is \<open>ENOENT\<close>.
\<close>

fun os_IsNotExist :: "error option \<Rightarrow> bool" where
  "os_IsNotExist None = False"
| "os_IsNotExist (Some e) =
     (case underlyingError e of
        ErrNotExist \<Rightarrow> True
      | Errno n \<Rightarrow> n = ENOENT
      | errorString t \<Rightarrow> False
      | PathError oper path e' \<Rightarrow> False)"

text \<open>\<open>os.FileMode\<close> is a \<open>uint32\<close>; the mode bits are \<open>1 << (32 - 1 - iota)\<close>.\<close>

type_synonym FileMode = "32 word"

definition ModeDir :: FileMode where "ModeDir = push_bit 31 1"
definition ModeAppend :: FileMode where "ModeAppend = push_bit 30 1"
definition ModeExclusive :: FileMode where "ModeExclusive = push_bit 29 1"
definition ModeTemporary :: FileMode where "ModeTemporary = push_bit 28 1"
definition ModeSymlink :: FileMode where "ModeSymlink = push_bit 27 1"
definition ModeDevice :: FileMode where "ModeDevice = push_bit 26 1"
definition ModeNamedPipe :: FileMode where "ModeNamedPipe = push_bit 25 1"
definition ModeSocket :: FileMode where "ModeSocket = push_bit 24 1"
definition ModeSetuid :: FileMode where "ModeSetuid = push_bit 23 1"
definition ModeSetgid :: FileMode where "ModeSetgid = push_bit 22 1"
definition ModeCharDevice :: FileMode where "ModeCharDevice = push_bit 21 1"
definition ModeSticky :: FileMode where "ModeSticky = push_bit 20 1"
definition ModeIrregular :: FileMode where "ModeIrregular = push_bit 19 1"

definition ModeType :: FileMode where
  "ModeType = ModeDir OR ModeSymlink OR ModeNamedPipe OR ModeSocket OR ModeDevice
     OR ModeCharDevice OR ModeIrregular"

text \<open>\<open>ModePerm\<close> is octal 0777.\<close>

definition ModePerm :: FileMode where
  "ModePerm = 7 * 8 ^ 2 + 7 * 8 + 7"

definition Perm :: "FileMode \<Rightarrow> FileMode" where
  "Perm m = m AND ModePerm"

definition IsRegular :: "FileMode \<Rightarrow> bool" where
  "IsRegular m = (m AND ModeType = 0)"

text \<open>
  \<open>syscall.Stat_t\<close> (the two fields the package reads) and the \<open>os.FileInfo\<close> that
  \<open>os.Stat\<close> returns on Unix, whose \<open>Sys()\<close> is always a \<open>*syscall.Stat_t\<close>.
\<close>

record Stat_t =
  Uid :: "32 word"
  Gid :: "32 word"

record FileInfo =
  fi_Mode :: FileMode
  fi_Size :: "64 word"
  fi_Sys :: Stat_t

text \<open>
  What the operating system answers at the moment of a call: the result of \<open>stat(2)\<close>
  for each path (an errno or the status), the four process ids (Go \<open>int\<close>, 64 bits), and the
  result of the working-directory lookup.
\<close>

record world =
  fs_stat :: "string \<Rightarrow> nat + FileInfo"
  getuid :: "64 word"
  getgid :: "64 word"
  geteuid :: "64 word"
  getegid :: "64 word"
  getwd :: "error + string"

definition os_Stat :: "world \<Rightarrow> string \<Rightarrow> FileInfo option \<times> error option" where
  "os_Stat w name =
     (case fs_stat w name of
        Inl e \<Rightarrow> (None, Some (PathError ''stat'' name (Errno e)))
      | Inr fi \<Rightarrow> (Some fi, None))"

definition PathSeparator :: char where
  "PathSeparator = CHR ''/''"

section \<open>user\_permissions.go\<close>

record UserDetails =
  uid :: "64 word"
  gid :: "64 word"
  euid :: "64 word"
  egid :: "64 word"

definition InitUser :: "world \<Rightarrow> UserDetails" where
  "InitUser w = \<lparr>uid = getuid w, gid = getgid w, euid = geteuid w, egid = getegid w\<rparr>"

definition User_GetUID :: "UserDetails \<Rightarrow> 64 word" where
  "User_GetUID u = uid u"

definition User_GetGID :: "UserDetails \<Rightarrow> 64 word" where
  "User_GetGID u = gid u"

definition User_GetEUid :: "UserDetails \<Rightarrow> 64 word" where
  "User_GetEUid u = euid u"

definition User_GetEGid :: "UserDetails \<Rightarrow> 64 word" where
  "User_GetEGid u = egid u"

section \<open>system\_path.go\<close>

record SystemPath =
  stat :: "FileInfo option"
  err :: "error option"

text \<open>The permission constants, written in octal in the source (00400 is \<open>4 * 8\<^sup>2\<close>).\<close>

definition IRUSR :: FileMode where "IRUSR = 4 * 8 ^ 2"
definition IREAD :: FileMode where "IREAD = 4 * 8 ^ 2"
definition IWUSR :: FileMode where "IWUSR = 2 * 8 ^ 2"
definition IWRITE :: FileMode where "IWRITE = 2 * 8 ^ 2"
definition IXUSR :: FileMode where "IXUSR = 1 * 8 ^ 2"
definition IEXEC :: FileMode where "IEXEC = 1 * 8 ^ 2"
definition IRGRP :: FileMode where "IRGRP = 4 * 8"
definition IWGRP :: FileMode where "IWGRP = 2 * 8"
definition IXGRP :: FileMode where "IXGRP = 1 * 8"
definition IROTH :: FileMode where "IROTH = 4"
definition IWOTH :: FileMode where "IWOTH = 2"
definition IXOTH :: FileMode where "IXOTH = 1"

definition SystemInit :: "world \<Rightarrow> string \<Rightarrow> SystemPath" where
  "SystemInit w path = (case os_Stat w path of (st, e) \<Rightarrow> \<lparr>stat = st, err = e\<rparr>)"

definition HaveError :: "SystemPath \<Rightarrow> bool" where
  "HaveError s = (err s \<noteq> None)"

definition IsStat :: "SystemPath \<Rightarrow> FileMode \<Rightarrow> bool outcome" where
  "IsStat s istat =
     (if err s \<noteq> None then Returns False
      else case stat s of
             None \<Rightarrow> Panics
           | Some fi \<Rightarrow> Returns ((fi_Mode fi AND istat) = istat))"

definition IsDir :: "SystemPath \<Rightarrow> bool outcome" where
  "IsDir s = IsStat s ModeDir"

definition IsExist :: "SystemPath \<Rightarrow> bool" where
  "IsExist s = (os_IsNotExist (err s) = False)"

definition IsSymlink :: "SystemPath \<Rightarrow> bool outcome" where
  "IsSymlink s = IsStat s ModeSymlink"

definition IsAppend :: "SystemPath \<Rightarrow> bool outcome" where
  "IsAppend s = IsStat s ModeAppend"

definition IsExclusive :: "SystemPath \<Rightarrow> bool outcome" where
  "IsExclusive s = IsStat s ModeExclusive"

definition IsTemporary :: "SystemPath \<Rightarrow> bool outcome" where
  "IsTemporary s = IsStat s ModeTemporary"

definition IsDevice :: "SystemPath \<Rightarrow> bool outcome" where
  "IsDevice s = IsStat s ModeDevice"

definition IsNamedPipe :: "SystemPath \<Rightarrow> bool outcome" where
  "IsNamedPipe s = IsStat s ModeNamedPipe"

definition IsSocket :: "SystemPath \<Rightarrow> bool outcome" where
  "IsSocket s = IsStat s ModeSocket"

definition IsCharDevice :: "SystemPath \<Rightarrow> bool outcome" where
  "IsCharDevice s = IsStat s ModeCharDevice"

definition HasSetUID :: "SystemPath \<Rightarrow> bool outcome" where
  "HasSetUID s = IsStat s ModeSetuid"

definition HasSetGid :: "SystemPath \<Rightarrow> bool outcome" where
  "HasSetGid s = IsStat s ModeSetgid"

definition IsSticky :: "SystemPath \<Rightarrow> bool outcome" where
  "IsSticky s = IsStat s ModeSticky"

definition IsRegularFile :: "SystemPath \<Rightarrow> bool outcome" where
  "IsRegularFile s =
     (if err s \<noteq> None then Returns False
      else case stat s of
             None \<Rightarrow> Panics
           | Some fi \<Rightarrow> Returns (IsRegular (fi_Mode fi)))"

definition HavePerm :: "SystemPath \<Rightarrow> FileMode \<Rightarrow> bool outcome" where
  "HavePerm s perm =
     (if err s \<noteq> None then Returns False
      else case stat s of
             None \<Rightarrow> Panics
           | Some fi \<Rightarrow> Returns ((Perm (fi_Mode fi) AND perm) = perm))"

definition IsOwnerReadable :: "SystemPath \<Rightarrow> bool outcome" where
  "IsOwnerReadable s = HavePerm s IRUSR"

definition IsOwnerWriteable :: "SystemPath \<Rightarrow> bool outcome" where
  "IsOwnerWriteable s = HavePerm s IWUSR"

definition IsOwnerExecutable :: "SystemPath \<Rightarrow> bool outcome" where
  "IsOwnerExecutable s = HavePerm s IXUSR"

definition IsGroupReadable :: "SystemPath \<Rightarrow> bool outcome" where
  "IsGroupReadable s = HavePerm s IRGRP"

definition IsGroupWriteable :: "SystemPath \<Rightarrow> bool outcome" where
  "IsGroupWriteable s = HavePerm s IWGRP"

definition IsGroupExecutable :: "SystemPath \<Rightarrow> bool outcome" where
  "IsGroupExecutable s = HavePerm s IXGRP"

definition IsOtherReadable :: "SystemPath \<Rightarrow> bool outcome" where
  "IsOtherReadable s = HavePerm s IROTH"

definition IsOtherWriteable :: "SystemPath \<Rightarrow> bool outcome" where
  "IsOtherWriteable s = HavePerm s IWOTH"

definition IsOtherExecutable :: "SystemPath \<Rightarrow> bool outcome" where
  "IsOtherExecutable s = HavePerm s IXOTH"

text \<open>
  \<open>GetUID\<close> and \<open>GetGID\<close> call \<open>s.stat.Sys()\<close> with no check of \<open>s.err\<close>: on a nil
  \<open>stat\<close> the call panics. Both read the field \<open>Uid\<close>, as the source does.
\<close>

definition GetUID :: "SystemPath \<Rightarrow> (32 word \<times> error option) outcome" where
  "GetUID s =
     (case stat s of
        None \<Rightarrow> Panics
      | Some fi \<Rightarrow>
          (let uid = Uid (fi_Sys fi)
           in if uid \<ge> 0 then Returns (uid, None)
              else Returns (0, Some (errors_New ''Invalid value for uid''))))"

definition GetGID :: "SystemPath \<Rightarrow> (32 word \<times> error option) outcome" where
  "GetGID s =
     (case stat s of
        None \<Rightarrow> Panics
      | Some fi \<Rightarrow>
          (let gid = Uid (fi_Sys fi)
           in if gid \<ge> 0 then Returns (gid, None)
              else Returns (0, Some (errors_New ''Invalid value for gid''))))"

text \<open>
  The three effective-permission queries. \<open>uint32(useruid)\<close> keeps the low 32 bits of the
  Go \<open>int\<close>.
\<close>

definition IsReadable :: "world \<Rightarrow> SystemPath \<Rightarrow> bool outcome" where
  "IsReadable w s =
     (let user = InitUser w;
          useruid = User_GetUID user;
          usergid = User_GetGID user
      in case GetUID s of
           Panics \<Rightarrow> Panics
         | Returns (fileuid, e1) \<Rightarrow>
             (case GetGID s of
                Panics \<Rightarrow> Panics
              | Returns (filegid, e2) \<Rightarrow>
                  if fileuid = ucast useruid then IsOwnerReadable s
                  else if filegid = ucast usergid then IsGroupReadable s
                  else IsOtherReadable s))"

definition IsWriteable :: "world \<Rightarrow> SystemPath \<Rightarrow> bool outcome" where
  "IsWriteable w s =
     (let user = InitUser w;
          useruid = User_GetUID user;
          usergid = User_GetGID user
      in case GetUID s of
           Panics \<Rightarrow> Panics
         | Returns (fileuid, e1) \<Rightarrow>
             (case GetGID s of
                Panics \<Rightarrow> Panics
              | Returns (filegid, e2) \<Rightarrow>
                  if fileuid = ucast useruid then IsOwnerWriteable s
                  else if filegid = ucast usergid then IsGroupWriteable s
                  else IsOtherWriteable s))"

definition IsExecutible :: "world \<Rightarrow> SystemPath \<Rightarrow> bool outcome" where
  "IsExecutible w s =
     (let user = InitUser w;
          useruid = User_GetUID user;
          usergid = User_GetGID user
      in case GetUID s of
           Panics \<Rightarrow> Panics
         | Returns (fileuid, e1) \<Rightarrow>
             (case GetGID s of
                Panics \<Rightarrow> Panics
              | Returns (filegid, e2) \<Rightarrow>
                  if fileuid = ucast useruid then IsOwnerExecutable s
                  else if filegid = ucast usergid then IsGroupExecutable s
                  else IsOtherExecutable s))"

definition Size :: "SystemPath \<Rightarrow> 64 word outcome" where
  "Size s = (case stat s of None \<Rightarrow> Panics | Some fi \<Rightarrow> Returns (fi_Size fi))"

definition GetCurrentDir :: "world \<Rightarrow> bool \<Rightarrow> string" where
  "GetCurrentDir w endseperator =
     (case getwd w of
        Inl e \<Rightarrow> ''''
      | Inr dir \<Rightarrow> (if endseperator then dir @ [PathSeparator] else dir))"

section \<open>Calling a predicate by name\<close>

text \<open>
  The boolean methods of \<open>SystemPath\<close>, as a type, and the call of one of them in a given
  state of the operating system. Only the three effective-permission queries read that
  state.
\<close>

datatype predicate =
    P_HaveError | P_IsStat FileMode | P_IsDir | P_IsExist | P_IsSymlink | P_IsAppend
  | P_IsExclusive | P_IsTemporary | P_IsDevice | P_IsNamedPipe | P_IsSocket
  | P_IsCharDevice | P_HasSetUID | P_HasSetGid | P_IsSticky | P_IsRegularFile
  | P_HavePerm FileMode
  | P_IsOwnerReadable | P_IsOwnerWriteable | P_IsOwnerExecutable
  | P_IsGroupReadable | P_IsGroupWriteable | P_IsGroupExecutable
  | P_IsOtherReadable | P_IsOtherWriteable | P_IsOtherExecutable
  | P_IsReadable | P_IsWriteable | P_IsExecutible

fun call_predicate :: "world \<Rightarrow> SystemPath \<Rightarrow> predicate \<Rightarrow> bool outcome" where
  "call_predicate w s P_HaveError = Returns (HaveError s)"
| "call_predicate w s (P_IsStat m) = IsStat s m"
| "call_predicate w s P_IsDir = IsDir s"
| "call_predicate w s P_IsExist = Returns (IsExist s)"
| "call_predicate w s P_IsSymlink = IsSymlink s"
| "call_predicate w s P_IsAppend = IsAppend s"
| "call_predicate w s P_IsExclusive = IsExclusive s"
| "call_predicate w s P_IsTemporary = IsTemporary s"
| "call_predicate w s P_IsDevice = IsDevice s"
| "call_predicate w s P_IsNamedPipe = IsNamedPipe s"
| "call_predicate w s P_IsSocket = IsSocket s"
| "call_predicate w s P_IsCharDevice = IsCharDevice s"
| "call_predicate w s P_HasSetUID = HasSetUID s"
| "call_predicate w s P_HasSetGid = HasSetGid s"
| "call_predicate w s P_IsSticky = IsSticky s"
| "call_predicate w s P_IsRegularFile = IsRegularFile s"
| "call_predicate w s (P_HavePerm m) = HavePerm s m"
| "call_predicate w s P_IsOwnerReadable = IsOwnerReadable s"
| "call_predicate w s P_IsOwnerWriteable = IsOwnerWriteable s"
| "call_predicate w s P_IsOwnerExecutable = IsOwnerExecutable s"
| "call_predicate w s P_IsGroupReadable = IsGroupReadable s"
| "call_predicate w s P_IsGroupWriteable = IsGroupWriteable s"
| "call_predicate w s P_IsGroupExecutable = IsGroupExecutable s"
| "call_predicate w s P_IsOtherReadable = IsOtherReadable s"
| "call_predicate w s P_IsOtherWriteable = IsOtherWriteable s"
| "call_predicate w s P_IsOtherExecutable = IsOtherExecutable s"
| "call_predicate w s P_IsReadable = IsReadable w s"
| "call_predicate w s P_IsWriteable = IsWriteable w s"
| "call_predicate w s P_IsExecutible = IsExecutible w s"

definition reads_identity :: "predicate \<Rightarrow> bool" where
  "reads_identity q = (q = P_IsReadable \<or> q = P_IsWriteable \<or> q = P_IsExecutible)"

section \<open>A concrete file system and process\<close>

text \<open>
  A file \<open>/tmp/f\<close> with mode 0470, owner 1000 and group 100; a path \<open>/root/x\<close> whose
  status is denied; no other path exists. The process runs as user 500 in group 100, in
  \<open>/home/u\<close>.
\<close>

definition example_file :: FileInfo where
  "example_file = \<lparr>fi_Mode = 4 * 8 ^ 2 + 7 * 8, fi_Size = 12,
                   fi_Sys = \<lparr>Uid = 1000, Gid = 100\<rparr>\<rparr>"

definition example_world :: world where
  "example_world =
     \<lparr>fs_stat = (\<lambda>p. if p = ''/tmp/f'' then Inr example_file
                     else if p = ''/root/x'' then Inl EACCES
                     else Inl ENOENT),
      getuid = 500, getgid = 100, geteuid = 500, getegid = 100,
      getwd = Inr ''/home/u''\<rparr>"

definition example_path :: SystemPath where
  "example_path = SystemInit example_world ''/tmp/f''"

definition missing_path :: SystemPath where
  "missing_path = SystemInit example_world ''/nonexistent''"

definition denied_path :: SystemPath where
  "denied_path = SystemInit example_world ''/root/x''"

text \<open>
  The same machine later on: after the process has changed its real user id to 1000, after
  every file has been removed, and after the working directory has been removed.
\<close>

definition owner_world :: world where
  "owner_world = example_world\<lparr>getuid := 1000\<rparr>"

definition emptied_world :: world where
  "emptied_world = example_world\<lparr>fs_stat := (\<lambda>p. Inl ENOENT)\<rparr>"

definition lost_cwd_world :: world where
  "lost_cwd_world = example_world\<lparr>getwd := Inl (Errno ENOENT)\<rparr>"

text \<open>
  The same process started with \<open>PWD=/home/u/\<close>: \<open>os.Getwd\<close> hands back the value of
  \<open>$PWD\<close> as it is when it names the current directory.
\<close>

definition trailing_cwd_world :: world where
  "trailing_cwd_world = example_world\<lparr>getwd := Inr ''/home/u/''\<rparr>"

section \<open>Auxiliary facts\<close>

lemma and_absorb_iff:
  "(a AND b = b) \<longleftrightarrow> (\<forall>n. bit b n \<longrightarrow> bit a n)" for a b :: "'a::len word"
proof
  assume h: "a AND b = b"
  show "\<forall>n. bit b n \<longrightarrow> bit a n"
  proof (intro allI impI)
    fix n assume "bit b n"
    then have "bit (a AND b) n" using h by simp
    then show "bit a n" by (simp add: bit_and_iff)
  qed
next
  assume h: "\<forall>n. bit b n \<longrightarrow> bit a n"
  show "a AND b = b"
    by (rule bit_eqI) (use h in \<open>auto simp: bit_and_iff\<close>)
qed

lemma bit_Perm: "bit (Perm m) k = (k < 9 \<and> bit m k)"
proof -
  have e: "ModePerm = mask 9" by (simp add: ModePerm_def mask_eq_exp_minus_1)
  show ?thesis by (auto simp: Perm_def e bit_and_iff bit_mask_iff)
qed

lemma Perm_single_bit:
  "n < 9 \<Longrightarrow> (Perm m AND push_bit n 1 = push_bit n 1) = bit m n"
  by (auto simp: and_absorb_iff bit_exp_iff bit_Perm)

lemma HavePerm_single_bit:
  "stat s = Some fi \<Longrightarrow> err s = None \<Longrightarrow> n < 9 \<Longrightarrow>
   HavePerm s (push_bit n 1) = Returns (bit (fi_Mode fi) n)"
  using Perm_single_bit [of n "fi_Mode fi"] by (simp add: HavePerm_def)

lemma example_path_fields:
  "stat example_path = Some example_file" "err example_path = None"
  by (simp_all add: example_path_def SystemInit_def os_Stat_def example_world_def)

lemma missing_path_fields:
  "stat missing_path = None"
  "err missing_path = Some (PathError ''stat'' ''/nonexistent'' (Errno ENOENT))"
  by (simp_all add: missing_path_def SystemInit_def os_Stat_def example_world_def)

lemma denied_path_fields:
  "stat denied_path = None"
  "err denied_path = Some (PathError ''stat'' ''/root/x'' (Errno EACCES))"
  by (simp_all add: denied_path_def SystemInit_def os_Stat_def example_world_def)

lemmas class_bit_defs =
  IsOwnerReadable_def IsOwnerWriteable_def IsOwnerExecutable_def
  IsGroupReadable_def IsGroupWriteable_def IsGroupExecutable_def
  IsOtherReadable_def IsOtherWriteable_def IsOtherExecutable_def

lemmas perm_const_defs =
  IRUSR_def IWUSR_def IXUSR_def IRGRP_def IWGRP_def IXGRP_def IROTH_def IWOTH_def IXOTH_def

lemmas type_pred_defs =
  IsDir_def IsSymlink_def IsAppend_def IsExclusive_def IsTemporary_def IsDevice_def
  IsNamedPipe_def IsSocket_def IsCharDevice_def HasSetUID_def HasSetGid_def IsSticky_def

lemmas resolution_defs =
  IsReadable_def IsWriteable_def IsExecutible_def InitUser_def User_GetUID_def
  User_GetGID_def

lemma perm_const_bits:
  "IRUSR = push_bit 8 1" "IWUSR = push_bit 7 1" "IXUSR = push_bit 6 1"
  "IRGRP = push_bit 5 1" "IWGRP = push_bit 4 1" "IXGRP = push_bit 3 1"
  "IROTH = push_bit 2 1" "IWOTH = push_bit 1 1" "IXOTH = push_bit 0 1"
  by (simp_all add: perm_const_defs)

text \<open>
  What the three effective-permission queries compute when the status is present: the
  owner id of the file is compared with the real user id, and then again with the real
  group id.
\<close>

lemma resolution_as_written:
  assumes "stat s = Some fi"
  shows "IsReadable w s =
           (if Uid (fi_Sys fi) = ucast (getuid w) then IsOwnerReadable s
            else if Uid (fi_Sys fi) = ucast (getgid w) then IsGroupReadable s
            else IsOtherReadable s)"
    and "IsWriteable w s =
           (if Uid (fi_Sys fi) = ucast (getuid w) then IsOwnerWriteable s
            else if Uid (fi_Sys fi) = ucast (getgid w) then IsGroupWriteable s
            else IsOtherWriteable s)"
    and "IsExecutible w s =
           (if Uid (fi_Sys fi) = ucast (getuid w) then IsOwnerExecutable s
            else if Uid (fi_Sys fi) = ucast (getgid w) then IsGroupExecutable s
            else IsOtherExecutable s)"
  using assms by (simp_all add: resolution_defs GetUID_def GetGID_def)

section \<open>Effective permissions and the owner accessors\<close>

text \<open>
  Claim C1. The queries \<open>IsReadable\<close>, \<open>IsWriteable\<close> and \<open>IsExecutible\<close> resolve
  owner, then group, then other: the owner-class bit if the owner id of the path is the
  real user id of the process, otherwise the group-class bit if the group id of the path is
  the real group id, otherwise the other-class bit.

  The code does not do this. On \<open>/tmp/f\<close> (mode 0470, owner 1000, group 100), for a process
  with real user id 500 and real group id 100, the owner differs and the group matches, and
  all three group-class bits are set; yet the three queries return false, the other-class
  bits. On a snapshot without status the queries panic.
\<close>

theorem C1_group_class_not_consulted:
  "Uid (fi_Sys example_file) \<noteq> ucast (getuid example_world)
   \<and> Gid (fi_Sys example_file) = ucast (getgid example_world)
   \<and> IsGroupReadable example_path = Returns True
   \<and> IsGroupWriteable example_path = Returns True
   \<and> IsGroupExecutable example_path = Returns True
   \<and> IsReadable example_world example_path = Returns False
   \<and> IsWriteable example_world example_path = Returns False
   \<and> IsExecutible example_world example_path = Returns False
   \<and> IsReadable example_world missing_path = Panics"
  by (simp add: resolution_defs GetUID_def GetGID_def class_bit_defs perm_const_defs
      HavePerm_def Perm_def ModePerm_def example_path_fields missing_path_fields
      example_file_def example_world_def)

text \<open>
  Claim C2. On a successfully constructed snapshot \<open>GetUID\<close> returns the owner user id
  of the path and \<open>GetGID\<close> returns its owner group id.

  \<open>GetUID\<close> does; \<open>GetGID\<close> reads the field \<open>Uid\<close> and returns the user id: on
  \<open>/tmp/f\<close>, owned by user 1000 and group 100, both return 1000.
\<close>

theorem C2_GetGID_reads_Uid:
  "stat example_path = Some example_file \<and> err example_path = None
   \<and> Uid (fi_Sys example_file) = 1000 \<and> Gid (fi_Sys example_file) = 100
   \<and> GetUID example_path = Returns (1000, None)
   \<and> GetGID example_path = Returns (1000, None)"
  by (simp add: GetUID_def GetGID_def example_path_fields example_file_def)

text \<open>
  Claim C3. On a snapshot whose construction failed, \<open>GetUID\<close> and \<open>GetGID\<close> return an
  explicit failure next to their result and do not panic.

  The code panics: the snapshot of a missing path holds no status, and both accessors call
  a method of the nil \<open>stat\<close> before any check.
\<close>

theorem C3_accessors_panic_without_stat:
  "HaveError missing_path \<and> stat missing_path = None
   \<and> GetUID missing_path = Panics \<and> GetGID missing_path = Panics"
  by (simp add: HaveError_def GetUID_def GetGID_def missing_path_fields)

section \<open>Type predicates and existence\<close>

text \<open>
  Claim C4. For every path snapshot whose construction failed, each of the thirteen
  type and attribute predicates returns false, and none of them panics.
\<close>

theorem C4_failed_predicates_false:
  assumes "HaveError s"
  shows "IsDir s = Returns False \<and> IsSymlink s = Returns False
       \<and> IsRegularFile s = Returns False \<and> IsDevice s = Returns False
       \<and> IsNamedPipe s = Returns False \<and> IsSocket s = Returns False
       \<and> IsCharDevice s = Returns False \<and> IsAppend s = Returns False
       \<and> IsExclusive s = Returns False \<and> IsTemporary s = Returns False
       \<and> HasSetUID s = Returns False \<and> HasSetGid s = Returns False
       \<and> IsSticky s = Returns False"
  using assms by (simp add: HaveError_def type_pred_defs IsStat_def IsRegularFile_def)

theorem C4_failed_predicates_false_witness:
  "HaveError missing_path \<and> IsDir missing_path = Returns False
   \<and> IsRegularFile missing_path = Returns False \<and> IsSticky missing_path = Returns False"
proof -
  have h: "HaveError missing_path" by (simp add: HaveError_def missing_path_fields)
  show ?thesis using h C4_failed_predicates_false [OF h] by simp
qed

text \<open>
  Claim C5. \<open>IsExist\<close> returns false if and only if the captured failure says "not
  found": on a snapshot, exactly when the error unwraps to \<open>ErrNotExist\<close> or to the errno
  \<open>ENOENT\<close>; on a snapshot built by \<open>SystemInit\<close>, exactly when the status lookup failed
  with \<open>ENOENT\<close>. So it returns true after a successful construction and after any other
  failure, such as permission denied.
\<close>

theorem C5_IsExist_iff_not_found:
  "(IsExist s \<longleftrightarrow>
      \<not> (\<exists>e. err s = Some e
            \<and> (underlyingError e = ErrNotExist \<or> underlyingError e = Errno ENOENT)))
   \<and> (IsExist (SystemInit w path) \<longleftrightarrow> fs_stat w path \<noteq> Inl ENOENT)"
proof -
  have a: "os_IsNotExist (Some e) =
             (underlyingError e = ErrNotExist \<or> underlyingError e = Errno ENOENT)" for e
    by (cases "underlyingError e") simp_all
  have "IsExist s \<longleftrightarrow>
      \<not> (\<exists>e. err s = Some e
            \<and> (underlyingError e = ErrNotExist \<or> underlyingError e = Errno ENOENT))"
    by (cases "err s") (simp_all add: IsExist_def a del: os_IsNotExist.simps(2))
  moreover have "IsExist (SystemInit w path) \<longleftrightarrow> fs_stat w path \<noteq> Inl ENOENT"
    by (cases "fs_stat w path") (simp_all add: IsExist_def SystemInit_def os_Stat_def)
  ultimately show ?thesis by blast
qed

theorem C5_IsExist_iff_not_found_witness:
  "IsExist example_path \<and> IsExist denied_path \<and> \<not> IsExist missing_path"
  using C5_IsExist_iff_not_found [THEN conjunct2, of example_world "''/tmp/f''"]
        C5_IsExist_iff_not_found [THEN conjunct2, of example_world "''/root/x''"]
        C5_IsExist_iff_not_found [THEN conjunct2, of example_world "''/nonexistent''"]
  by (simp add: example_path_def denied_path_def missing_path_def example_world_def
      ENOENT_def EACCES_def)

section \<open>Permission bits\<close>

text \<open>
  Claim C6. On a successfully constructed snapshot, for every mask, \<open>HavePerm\<close> returns
  true if and only if every bit of the mask is a bit of the permission part of the mode
  (its nine low bits); one missing bit gives false.
\<close>

theorem C6_HavePerm_all_bits:
  assumes "stat s = Some fi" and "err s = None"
  shows "HavePerm s perm = Returns (\<forall>n. bit perm n \<longrightarrow> n < 9 \<and> bit (fi_Mode fi) n)"
  using assms by (simp add: HavePerm_def and_absorb_iff bit_Perm)

theorem C6_HavePerm_all_bits_witness:
  "stat example_path = Some example_file \<and> err example_path = None
   \<and> HavePerm example_path (IRUSR OR IRGRP) = Returns True
   \<and> HavePerm example_path (IRUSR OR IWUSR) = Returns False"
proof -
  have "HavePerm example_path (IRUSR OR IRGRP) = Returns True"
    using C6_HavePerm_all_bits [OF example_path_fields, of "IRUSR OR IRGRP"]
    by (simp add: HavePerm_def example_path_fields Perm_def ModePerm_def perm_const_defs
        example_file_def)
  moreover have "HavePerm example_path (IRUSR OR IWUSR) = Returns False"
    using C6_HavePerm_all_bits [OF example_path_fields, of "IRUSR OR IWUSR"]
    by (simp add: HavePerm_def example_path_fields Perm_def ModePerm_def perm_const_defs
        example_file_def)
  ultimately show ?thesis by (simp add: example_path_fields)
qed

text \<open>
  Claim C7. Each of the nine class and access predicates checks one fixed bit of the mode,
  and the constants are the POSIX ones: owner read, write, execute are octal 0400, 0200,
  0100 (bits 8, 7, 6), group 0040, 0020, 0010 (bits 5, 4, 3), other 0004, 0002, 0001
  (bits 2, 1, 0).
\<close>

theorem C7_fixed_bit_predicates:
  assumes "stat s = Some fi" and "err s = None"
  shows "IsOwnerReadable s = Returns (bit (fi_Mode fi) 8) \<and> IRUSR = 4 * 8 ^ 2
       \<and> IsOwnerWriteable s = Returns (bit (fi_Mode fi) 7) \<and> IWUSR = 2 * 8 ^ 2
       \<and> IsOwnerExecutable s = Returns (bit (fi_Mode fi) 6) \<and> IXUSR = 1 * 8 ^ 2
       \<and> IsGroupReadable s = Returns (bit (fi_Mode fi) 5) \<and> IRGRP = 4 * 8
       \<and> IsGroupWriteable s = Returns (bit (fi_Mode fi) 4) \<and> IWGRP = 2 * 8
       \<and> IsGroupExecutable s = Returns (bit (fi_Mode fi) 3) \<and> IXGRP = 1 * 8
       \<and> IsOtherReadable s = Returns (bit (fi_Mode fi) 2) \<and> IROTH = 4
       \<and> IsOtherWriteable s = Returns (bit (fi_Mode fi) 1) \<and> IWOTH = 2
       \<and> IsOtherExecutable s = Returns (bit (fi_Mode fi) 0) \<and> IXOTH = 1"
proof -
  note hp = HavePerm_single_bit [OF assms]
  have "IsOwnerReadable s = Returns (bit (fi_Mode fi) 8)"
    unfolding IsOwnerReadable_def perm_const_bits by (rule hp) simp
  moreover have "IsOwnerWriteable s = Returns (bit (fi_Mode fi) 7)"
    unfolding IsOwnerWriteable_def perm_const_bits by (rule hp) simp
  moreover have "IsOwnerExecutable s = Returns (bit (fi_Mode fi) 6)"
    unfolding IsOwnerExecutable_def perm_const_bits by (rule hp) simp
  moreover have "IsGroupReadable s = Returns (bit (fi_Mode fi) 5)"
    unfolding IsGroupReadable_def perm_const_bits by (rule hp) simp
  moreover have "IsGroupWriteable s = Returns (bit (fi_Mode fi) 4)"
    unfolding IsGroupWriteable_def perm_const_bits by (rule hp) simp
  moreover have "IsGroupExecutable s = Returns (bit (fi_Mode fi) 3)"
    unfolding IsGroupExecutable_def perm_const_bits by (rule hp) simp
  moreover have "IsOtherReadable s = Returns (bit (fi_Mode fi) 2)"
    unfolding IsOtherReadable_def perm_const_bits by (rule hp) simp
  moreover have "IsOtherWriteable s = Returns (bit (fi_Mode fi) 1)"
    unfolding IsOtherWriteable_def perm_const_bits by (rule hp) simp
  moreover have "IsOtherExecutable s = Returns (bit (fi_Mode fi) 0)"
    unfolding IsOtherExecutable_def perm_const_bits by (rule hp) simp
  ultimately show ?thesis by (simp add: perm_const_defs)
qed

theorem C7_fixed_bit_predicates_witness:
  "stat example_path = Some example_file \<and> err example_path = None
   \<and> IsOwnerReadable example_path = Returns True
   \<and> IsOwnerWriteable example_path = Returns False
   \<and> IsGroupExecutable example_path = Returns True
   \<and> IsOtherReadable example_path = Returns False"
proof -
  have m: "fi_Mode example_file = 312" by (simp add: example_file_def)
  show ?thesis
    using C7_fixed_bit_predicates [OF example_path_fields]
    by (simp add: example_path_fields m bit_iff_odd_drop_bit)
qed

section \<open>The working directory\<close>

text \<open>
  Claim C8, as stated: \<open>GetCurrentDir\<close> returns the empty string when the lookup fails;
  with a true argument the result ends with the path separator; with a false argument the
  result is the looked-up directory unchanged, not ending with the separator for a
  directory other than the root.

  The last part fails: the function never removes a separator, so when the lookup reports
  the directory \<open>/home/u/\<close>, which is not the root, the result with a false argument is
  \<open>/home/u/\<close> and ends with the separator.
\<close>

theorem C8_nonroot_trailing_separator:
  "getwd trailing_cwd_world = Inr ''/home/u/''
   \<and> ''/home/u/'' \<noteq> [PathSeparator]
   \<and> GetCurrentDir trailing_cwd_world False = ''/home/u/''
   \<and> last (GetCurrentDir trailing_cwd_world False) = PathSeparator"
  by (simp add: GetCurrentDir_def trailing_cwd_world_def PathSeparator_def)

text \<open>
  Claim C8, amended: \<open>GetCurrentDir\<close> returns the empty string when the lookup of the
  working directory fails, whatever its argument. When the lookup succeeds, the result
  with a true argument is the directory followed by the path separator, so it ends with
  the separator; with a false argument it is the directory exactly as looked up, so it
  ends with the separator if and only if the looked-up directory does.
\<close>

theorem C8_GetCurrentDir:
  "(getwd w = Inl e \<longrightarrow> GetCurrentDir w endseperator = '''')
   \<and> (getwd w = Inr dir \<longrightarrow>
        GetCurrentDir w True = dir @ [PathSeparator]
        \<and> GetCurrentDir w True \<noteq> []
        \<and> last (GetCurrentDir w True) = PathSeparator
        \<and> GetCurrentDir w False = dir
        \<and> (last (GetCurrentDir w False) = PathSeparator) = (last dir = PathSeparator))"
  by (simp add: GetCurrentDir_def)

theorem C8_GetCurrentDir_witness:
  "getwd example_world = Inr ''/home/u''
   \<and> GetCurrentDir example_world True = ''/home/u/''
   \<and> GetCurrentDir example_world False = ''/home/u''
   \<and> last (GetCurrentDir example_world False) \<noteq> PathSeparator
   \<and> getwd lost_cwd_world = Inl (Errno ENOENT)
   \<and> GetCurrentDir lost_cwd_world True = ''''
   \<and> GetCurrentDir lost_cwd_world False = ''''"
proof -
  have a: "getwd example_world = Inr ''/home/u''" by (simp add: example_world_def)
  have b: "getwd lost_cwd_world = Inl (Errno ENOENT)" by (simp add: lost_cwd_world_def)
  show ?thesis
    using a b
      C8_GetCurrentDir [of example_world "Errno ENOENT" True "''/home/u''"]
      C8_GetCurrentDir [of lost_cwd_world "Errno ENOENT" True]
      C8_GetCurrentDir [of lost_cwd_world "Errno ENOENT" False]
    by (simp add: PathSeparator_def)
qed

section \<open>Repeated calls\<close>

text \<open>
  Claim C9, as stated: repeated calls of any predicate on one snapshot return the same
  result, each predicate being a function of the data captured at construction.

  This fails for the effective-permission queries, which fetch the identity of the process
  at each call: on the snapshot of \<open>/tmp/f\<close> (owner 1000, mode 0470), \<open>IsReadable\<close>
  returns false while the real user id is 500 and true once it is 1000.
\<close>

theorem C9_identity_changes_result:
  "IsReadable example_world example_path = Returns False
   \<and> IsReadable owner_world example_path = Returns True
   \<and> call_predicate example_world example_path P_IsReadable
       \<noteq> call_predicate owner_world example_path P_IsReadable"
  by (simp add: resolution_defs GetUID_def GetGID_def class_bit_defs perm_const_defs
      HavePerm_def Perm_def ModePerm_def example_path_fields example_file_def
      example_world_def owner_world_def)

text \<open>
  Claim C9, amended: a predicate other than \<open>IsReadable\<close>, \<open>IsWriteable\<close> and
  \<open>IsExecutible\<close> returns the same result on one snapshot in every state of the operating
  system, and these three do so in all states with the same real user and group id: no
  predicate looks at the file system again.
\<close>

theorem C9_predicates_depend_on_snapshot_and_identity:
  "(\<not> reads_identity q \<longrightarrow> call_predicate w s q = call_predicate w' s q)
   \<and> (getuid w = getuid w' \<and> getgid w = getgid w' \<longrightarrow>
        call_predicate w s q = call_predicate w' s q)"
  by (cases q)
     (auto simp: reads_identity_def resolution_defs Let_def
      split: outcome.splits prod.splits)

theorem C9_predicates_depend_on_snapshot_and_identity_witness:
  "\<not> reads_identity P_IsDir
   \<and> getuid emptied_world = getuid example_world
   \<and> getgid emptied_world = getgid example_world
   \<and> call_predicate owner_world example_path P_IsDir
       = call_predicate example_world example_path P_IsDir
   \<and> call_predicate emptied_world example_path P_IsReadable
       = call_predicate example_world example_path P_IsReadable"
  using C9_predicates_depend_on_snapshot_and_identity
          [of P_IsDir owner_world example_path example_world]
        C9_predicates_depend_on_snapshot_and_identity
          [of P_IsReadable emptied_world example_path example_world]
  by (simp add: reads_identity_def emptied_world_def)

section \<open>The error branch of the owner accessors\<close>

text \<open>
  Claim C10. For every path snapshot whose stat data is present, \<open>GetUID\<close> and
  \<open>GetGID\<close> return a nil error: the id is an unsigned 32-bit value, the guard
  \<open>id >= 0\<close> always holds, and the branch returning the "Invalid value" error is never
  taken.
\<close>

theorem C10_id_error_is_nil:
  assumes "stat s = Some fi"
  shows "(\<exists>u. GetUID s = Returns (u, None)) \<and> (\<exists>g. GetGID s = Returns (g, None))
         \<and> GetUID s \<noteq> Returns (0, Some (errors_New ''Invalid value for uid''))
         \<and> GetGID s \<noteq> Returns (0, Some (errors_New ''Invalid value for gid''))"
  using assms by (simp add: GetUID_def GetGID_def)

theorem C10_id_error_is_nil_witness:
  "stat example_path = Some example_file
   \<and> GetUID example_path = Returns (1000, None)
   \<and> GetGID example_path = Returns (1000, None)"
  using C10_id_error_is_nil [OF example_path_fields(1)]
  by (simp add: GetUID_def GetGID_def example_path_fields example_file_def)

end
